theory Spec2Isabelle
  imports Main
begin

section \<open>Data model\<close>

text \<open>
  The repository holds two versions of the chat screen, \<^verbatim>\<open>src/app/index.tsx\<close> and
  \<^verbatim>\<open>src/unnamed/part_000\<close>. Both define the same component \<^verbatim>\<open>HomeScreen\<close>
  with the functions \<^verbatim>\<open>clearChat\<close>, \<^verbatim>\<open>loadModel\<close> and \<^verbatim>\<open>sendMessage\<close>.
  They differ in \<^verbatim>\<open>clearChat\<close>, in the system prompt and in \<^verbatim>\<open>n_predict\<close>; the
  model takes the version as a parameter where they differ.
\<close>

datatype variant = AppIndex | Part000

text \<open>\<^verbatim>\<open>type Message = { role: "user" | "assistant" | "system"; content: string }\<close>\<close>

datatype role = User | Assistant | System

record Message =
  role :: role
  content :: string

text \<open>
  A thrown value, as far as the code looks at it: its \<^verbatim>\<open>message\<close> property, which may
  be undefined. The handle returned by \<^verbatim>\<open>initLlama\<close> is opaque.
\<close>

datatype js_error = JsError (message: "string option")

datatype llama_context = LlamaContext nat

text \<open>The argument of \<^verbatim>\<open>initLlama\<close> and the first argument of \<^verbatim>\<open>context.completion\<close>.\<close>

record llama_params =
  model :: string
  use_mlock :: bool
  n_ctx :: nat
  n_gpu_layers :: nat
  use_progress_callback :: bool

record completion_params =
  req_messages :: "Message list"
  n_predict :: nat
  stop :: "string list"

text \<open>
  The component's state, one field per \<^verbatim>\<open>useState\<close> hook. \<open>downloadProgress\<close> holds
  the last reported pair (bytes written, bytes expected); the floating-point quotient
  the source stores is not evaluated. The state variable \<^verbatim>\<open>context\<close> is the field
  \<open>context'\<close>, \<^verbatim>\<open>null\<close> being \<open>None\<close>.
\<close>

record app_state =
  downloadProgress :: "nat \<times> nat"
  messages :: "Message list"
  inputMessage :: string
  error :: "string option"
  isProcessing :: bool
  context' :: "llama_context option"

text \<open>The part of the device the code observes: the document directory and two paths.\<close>

record world =
  documentDirectory :: string
  dirExists :: bool
  fileExists :: bool

text \<open>
  What the external calls of one run answer. \<open>None\<close> (or \<open>Inr\<close>) is a call that
  resolves, \<open>Some e\<close> (or \<open>Inl e\<close>) one that throws \<open>e\<close>. A failed download says
  whether it left a file at the local path.
\<close>

datatype download_outcome = Downloaded | DownloadThrew js_error bool

record io =
  getInfoDir :: "js_error option"
  makeDirectory :: "js_error option"
  getInfoFile :: "js_error option"
  progressReports :: "(nat \<times> nat) list"
  downloadAsync :: download_outcome
  getInfoMd5 :: "js_error option"
  loadLlamaModelInfo :: "js_error option"
  initLlama :: "llama_params \<Rightarrow> js_error + llama_context"
  completion :: "llama_context \<Rightarrow> completion_params \<Rightarrow> js_error + string"

text \<open>The external calls a run makes, in order, with their arguments.\<close>

datatype event =
    GetInfoAsync string bool
  | MakeDirectoryAsync string bool
  | DownloadAsync string string
  | LoadLlamaModelInfo string
  | InitLlama llama_params
  | Completion llama_context completion_params

type_synonym run = "app_state \<times> world \<times> event list"

text \<open>How a \<^verbatim>\<open>try\<close> block is left.\<close>

datatype exit = Fallthrough | EarlyReturn | Throws js_error

section \<open>Strings\<close>

text \<open>
  Strings are lists of 8-bit characters, read as code units below 256. Of these,
  \<^verbatim>\<open>String.prototype.trim\<close> strips TAB, LF, VT, FF, CR, SP and NBSP.
\<close>

definition js_whitespace :: "char \<Rightarrow> bool" where
  "js_whitespace c =
     (c \<in> {CHR 0x09, CHR 0x0A, CHR 0x0B, CHR 0x0C, CHR 0x0D, CHR 0x20, CHR 0xA0})"

definition js_trim :: "string \<Rightarrow> string" where
  "js_trim s = rev (dropWhile js_whitespace (rev (dropWhile js_whitespace s)))"

text \<open>\<^verbatim>\<open>hay.includes(needle)\<close>\<close>

fun js_includes :: "string \<Rightarrow> string \<Rightarrow> bool" where
  "js_includes [] needle = (needle = [])"
| "js_includes (c # cs) needle =
     (take (length needle) (c # cs) = needle \<or> js_includes cs needle)"

text \<open>\<^verbatim>\<open>e.message || dflt\<close>: undefined and the empty string are falsy.\<close>

definition or_default :: "string option \<Rightarrow> string \<Rightarrow> string" where
  "or_default m dflt = (case m of None \<Rightarrow> dflt | Some x \<Rightarrow> if x = [] then dflt else x)"

text \<open>\<^verbatim>\<open>downloadError?.message?.includes("timed out")\<close>\<close>

definition timed_out :: "js_error \<Rightarrow> bool" where
  "timed_out e = (case message e of None \<Rightarrow> False | Some m \<Rightarrow> js_includes m ''timed out'')"

section \<open>Constants of the component\<close>

definition MODEL_URL :: string where
  "MODEL_URL = ''https://pub-741c015d579d42f8acfe54bd0788c5ef.r2.dev/gemma-2-2b-it-Q8_0.gguf''"

definition modelDirectory :: "world \<Rightarrow> string" where
  "modelDirectory w = documentDirectory w @ ''models/''"

definition localModelPath :: "world \<Rightarrow> string" where
  "localModelPath w = modelDirectory w @ ''gemma-2-2b-it-Q8_0-011.gguf''"

definition timeout_message :: string where
  "timeout_message =
     ''Download timed out. Please check your internet connection and try again.''"

definition init_params :: "world \<Rightarrow> llama_params" where
  "init_params w =
     \<lparr>model = localModelPath w, use_mlock = True, n_ctx = 2048, n_gpu_layers = 0,
      use_progress_callback = True\<rparr>"

definition system_prompt :: "variant \<Rightarrow> string" where
  "system_prompt v = (case v of
       AppIndex \<Rightarrow>
         ''This is a conversation between user and assistant, an AI Therapist chatbot.''
     | Part000 \<Rightarrow>
         ''This is a conversation between user and assistant, a friendly chatbot.'')"

definition max_tokens :: "variant \<Rightarrow> nat" where
  "max_tokens v = (case v of AppIndex \<Rightarrow> 512 | Part000 \<Rightarrow> 100)"

definition stop_sequences :: "string list" where
  "stop_sequences =
     [''</s>'', ''<|end|>'', ''<|eot_id|>'', ''<|end_of_text|>'', ''<|im_end|>'',
      ''<|EOT|>'', ''<|END_OF_TURN_TOKEN|>'', ''<end_of_turn>'', ''<end_of_turn><eos>'',
      ''<|endoftext|>'', ''<|end_of_text|>'']"

section \<open>clearChat\<close>

text \<open>
  \<^verbatim>\<open>index.tsx\<close>: \<^verbatim>\<open>setMessages([]); setInputMessage("");\<close>
  \<^verbatim>\<open>part_000\<close>: \<^verbatim>\<open>setMessages([]);\<close>
\<close>

definition clearChat :: "variant \<Rightarrow> app_state \<Rightarrow> app_state" where
  "clearChat v st = (case v of
       AppIndex \<Rightarrow> st\<lparr>messages := [], inputMessage := []\<rparr>
     | Part000 \<Rightarrow> st\<lparr>messages := []\<rparr>)"

section \<open>loadModel\<close>

text \<open>
  The \<^verbatim>\<open>try\<close> block of \<^verbatim>\<open>loadModel\<close> in three stages, each a function from the
  run so far (state, device, calls made) to the way the stage is left and the run after
  it. \<open>and_then\<close> goes on to the next stage only when the one before fell through.
\<close>

definition and_then ::
  "(run \<Rightarrow> exit \<times> run) \<Rightarrow> (run \<Rightarrow> exit \<times> run) \<Rightarrow> run \<Rightarrow> exit \<times> run" where
  "and_then f g r = (case f r of (Fallthrough, r') \<Rightarrow> g r' | (x, r') \<Rightarrow> (x, r'))"

text \<open>
  \<^verbatim>\<open>const dirInfo = await FileSystem.getInfoAsync(modelDirectory);
  if (!dirInfo.exists) { await FileSystem.makeDirectoryAsync(modelDirectory, {intermediates: true}); }\<close>
\<close>

definition check_directory :: "io \<Rightarrow> run \<Rightarrow> exit \<times> run" where
  "check_directory env r = (case r of (st, w, tr) \<Rightarrow>
     (let tr1 = tr @ [GetInfoAsync (modelDirectory w) False] in
      case getInfoDir env of
        Some e \<Rightarrow> (Throws e, st, w, tr1)
      | None \<Rightarrow>
          if dirExists w then (Fallthrough, st, w, tr1)
          else
            (let tr2 = tr1 @ [MakeDirectoryAsync (modelDirectory w) True] in
             case makeDirectory env of
               Some e \<Rightarrow> (Throws e, st, w, tr2)
             | None \<Rightarrow> (Fallthrough, st, w\<lparr>dirExists := True\<rparr>, tr2))))"

text \<open>
  Lines 394 to 431 of \<^verbatim>\<open>index.tsx\<close> (245 to 282 of \<^verbatim>\<open>part_000\<close>): the file check and, when the file is absent, the
  download with its progress callback, the inner \<^verbatim>\<open>try\<close>/\<^verbatim>\<open>catch\<close> and the
  \<^verbatim>\<open>getInfoAsync(localModelPath, {md5: true})\<close> that follows a download.
\<close>

definition fetch_model :: "io \<Rightarrow> run \<Rightarrow> exit \<times> run" where
  "fetch_model env r = (case r of (st, w, tr) \<Rightarrow>
     (let tr1 = tr @ [GetInfoAsync (localModelPath w) False] in
      case getInfoFile env of
        Some e \<Rightarrow> (Throws e, st, w, tr1)
      | None \<Rightarrow>
          if fileExists w then (Fallthrough, st, w, tr1)
          else
            (let tr2 = tr1 @ [DownloadAsync MODEL_URL (localModelPath w)];
                 st2 = foldl (\<lambda>s p. s\<lparr>downloadProgress := p\<rparr>) st (progressReports env) in
             case downloadAsync env of
               DownloadThrew e left \<Rightarrow>
                 if timed_out e
                 then (EarlyReturn,
                       st2\<lparr>error := Some timeout_message, isProcessing := False\<rparr>,
                       w\<lparr>fileExists := left\<rparr>, tr2)
                 else (Throws e, st2, w\<lparr>fileExists := left\<rparr>, tr2)
             | Downloaded \<Rightarrow>
                 (let tr3 = tr2 @ [GetInfoAsync (localModelPath w) True] in
                  case getInfoMd5 env of
                    Some e \<Rightarrow> (Throws e, st2, w\<lparr>fileExists := True\<rparr>, tr3)
                  | None \<Rightarrow> (Fallthrough, st2, w\<lparr>fileExists := True\<rparr>, tr3)))))"

text \<open>
  \<^verbatim>\<open>await loadLlamaModelInfo(localModelPath);
  const llamaContext = await initLlama({...}); setContext(llamaContext);\<close>
\<close>

definition init_engine :: "io \<Rightarrow> run \<Rightarrow> exit \<times> run" where
  "init_engine env r = (case r of (st, w, tr) \<Rightarrow>
     (let tr1 = tr @ [LoadLlamaModelInfo (localModelPath w)] in
      case loadLlamaModelInfo env of
        Some e \<Rightarrow> (Throws e, st, w, tr1)
      | None \<Rightarrow>
          (let tr2 = tr1 @ [InitLlama (init_params w)] in
           case initLlama env (init_params w) of
             Inl e \<Rightarrow> (Throws e, st, w, tr2)
           | Inr h \<Rightarrow> (Fallthrough, st\<lparr>context' := Some h\<rparr>, w, tr2))))"

definition loadModel_try :: "io \<Rightarrow> run \<Rightarrow> exit \<times> run" where
  "loadModel_try env =
     and_then (check_directory env) (and_then (fetch_model env) (init_engine env))"

text \<open>
  \<^verbatim>\<open>try { setIsProcessing(true); ... }
  catch (e) { setError(e.message || "Failed to load model"); }
  finally { setIsProcessing(false); }\<close>
  \<open>loadModel\<close> reads no state variable; it only sets them.
\<close>

definition loadModel :: "io \<Rightarrow> app_state \<Rightarrow> world \<Rightarrow> run" where
  "loadModel env st w =
     (case loadModel_try env (st\<lparr>isProcessing := True\<rparr>, w, []) of (x, st1, w1, tr) \<Rightarrow>
        (let st2 = (case x of
                      Throws e \<Rightarrow>
                        st1\<lparr>error := Some (or_default (message e) ''Failed to load model'')\<rparr>
                    | EarlyReturn \<Rightarrow> st1
                    | Fallthrough \<Rightarrow> st1)
         in (st2\<lparr>isProcessing := False\<rparr>, w1, tr)))"

section \<open>sendMessage\<close>

text \<open>
  \<^verbatim>\<open>inputMessage\<close>, \<^verbatim>\<open>messages\<close>, \<^verbatim>\<open>isProcessing\<close> and \<^verbatim>\<open>context\<close> are
  \<^verbatim>\<open>const\<close> bindings of the render that created the handler: every read in
  \<^verbatim>\<open>sendMessage\<close> is a read of the state \<open>s\<close> the handler was created in, also after
  an \<^verbatim>\<open>await\<close>. The setters write to the component's state, which is threaded through
  the run.

  \<open>sendMessage_rest\<close> is the function from \<^verbatim>\<open>const messageToSend = inputMessage\<close> to
  its end, for the handle \<open>h\<close> that \<^verbatim>\<open>context\<close> holds; \<open>completion_request\<close>
  is the object literal passed to \<^verbatim>\<open>context.completion\<close>.
\<close>

definition completion_request :: "variant \<Rightarrow> Message list \<Rightarrow> completion_params" where
  "completion_request v newMessages =
     \<lparr>req_messages = \<lparr>role = System, content = system_prompt v\<rparr> # newMessages,
      n_predict = max_tokens v, stop = stop_sequences\<rparr>"

definition sendMessage_rest ::
  "variant \<Rightarrow> io \<Rightarrow> app_state \<Rightarrow> llama_context \<Rightarrow> run \<Rightarrow> run" where
  "sendMessage_rest v env s h r = (case r of (st, w, tr) \<Rightarrow>
     (let messageToSend = inputMessage s;
          newMessages = messages s @ [\<lparr>role = User, content = messageToSend\<rparr>];
          st1 = st\<lparr>messages := newMessages, inputMessage := [], isProcessing := True\<rparr>;
          req = completion_request v newMessages;
          st2 = (case completion env h req of
                   Inr text \<Rightarrow>
                     st1\<lparr>messages := newMessages @ [\<lparr>role = Assistant, content = text\<rparr>]\<rparr>
                 | Inl e \<Rightarrow>
                     st1\<lparr>error := Some (or_default (message e) ''Failed to send message'')\<rparr>)
      in (st2\<lparr>isProcessing := False\<rparr>, w, tr @ [Completion h req])))"

text \<open>
  \<^verbatim>\<open>if (!inputMessage.trim() || isProcessing) return;
  if (!context) { await loadModel(); if (!context) return; }\<close>
  The second \<^verbatim>\<open>!context\<close> tests the same binding as the first.
\<close>

definition sendMessage :: "variant \<Rightarrow> io \<Rightarrow> app_state \<Rightarrow> world \<Rightarrow> run" where
  "sendMessage v env s w =
     (if js_trim (inputMessage s) = [] \<or> isProcessing s then (s, w, [])
      else
        (case context' s of
           None \<Rightarrow>
             (let r = loadModel env s w in
              case context' s of
                None \<Rightarrow> r
              | Some h \<Rightarrow> sendMessage_rest v env s h r)
         | Some h \<Rightarrow> sendMessage_rest v env s h (s, w, [])))"

section \<open>Reading a run\<close>

abbreviation state_of :: "run \<Rightarrow> app_state" where
  "state_of r \<equiv> fst r"

abbreviation world_of :: "run \<Rightarrow> world" where
  "world_of r \<equiv> fst (snd r)"

abbreviation trace_of :: "run \<Rightarrow> event list" where
  "trace_of r \<equiv> snd (snd r)"

text \<open>The network transfer, and the calls that belong to provisioning.\<close>

fun is_download :: "event \<Rightarrow> bool" where
  "is_download (DownloadAsync url path) = True"
| "is_download ev = False"

fun is_provisioning :: "event \<Rightarrow> bool" where
  "is_provisioning (Completion h req) = False"
| "is_provisioning ev = True"

section \<open>Example runs\<close>

text \<open>
  A device with no model directory yet, a fresh component with the text \<open>hello\<close> typed,
  and external calls that all resolve: the download reports four chunks, the engine
  gives the handle 1 and answers every request with the same text.
\<close>

definition device0 :: world where
  "device0 = \<lparr>documentDirectory = ''file:///data/'', dirExists = False, fileExists = False\<rparr>"

definition fresh :: app_state where
  "fresh = \<lparr>downloadProgress = (0, 1), messages = [], inputMessage = ''hello'',
            error = None, isProcessing = False, context' = None\<rparr>"

definition io_ok :: io where
  "io_ok = \<lparr>getInfoDir = None, makeDirectory = None, getInfoFile = None,
            progressReports = [(250000, 1000000), (500000, 1000000), (750000, 1000000),
                               (1000000, 1000000)],
            downloadAsync = Downloaded, getInfoMd5 = None, loadLlamaModelInfo = None,
            initLlama = (\<lambda>p. Inr (LlamaContext 1)),
            completion = (\<lambda>h req. Inr ''I hear you.'')\<rparr>"

text \<open>The same with a download that times out, one that is refused, and an engine
  whose completion call throws.\<close>

definition io_timeout :: io where
  "io_timeout = io_ok\<lparr>downloadAsync :=
     DownloadThrew (JsError (Some ''The request timed out.'')) False\<rparr>"

definition io_refused :: io where
  "io_refused = io_ok\<lparr>downloadAsync :=
     DownloadThrew (JsError (Some ''Connection refused'')) True\<rparr>"

definition io_engine_down :: io where
  "io_engine_down = io_ok\<lparr>completion := (\<lambda>h req. Inl (JsError (Some ''Context is busy'')))\<rparr>"

text \<open>The same with an engine that fails to initialise.\<close>

definition io_init_fails :: io where
  "io_init_fails =
     io_ok\<lparr>initLlama := (\<lambda>p. Inl (JsError (Some ''Failed to load the model'')))\<rparr>"

text \<open>A component that holds the handle, with one exchange in the transcript and a
  new text typed.\<close>

definition loaded :: app_state where
  "loaded = \<lparr>downloadProgress = (1000000, 1000000),
     messages = [\<lparr>role = User, content = ''hi''\<rparr>,
                 \<lparr>role = Assistant, content = ''Hello.''\<rparr>],
     inputMessage = ''I'm so stressed'', error = None, isProcessing = False,
     context' = Some (LlamaContext 1)\<rparr>"

section \<open>Basic facts\<close>

lemma progress_frame:
  "messages (foldl (\<lambda>s p. s\<lparr>downloadProgress := p\<rparr>) st ps) = messages st"
  "inputMessage (foldl (\<lambda>s p. s\<lparr>downloadProgress := p\<rparr>) st ps) = inputMessage st"
  "error (foldl (\<lambda>s p. s\<lparr>downloadProgress := p\<rparr>) st ps) = error st"
  "isProcessing (foldl (\<lambda>s p. s\<lparr>downloadProgress := p\<rparr>) st ps) = isProcessing st"
  "context' (foldl (\<lambda>s p. s\<lparr>downloadProgress := p\<rparr>) st ps) = context' st"
  by (induction ps arbitrary: st) simp_all

lemmas loadModel_defs =
  loadModel_def loadModel_try_def and_then_def check_directory_def fetch_model_def
  init_engine_def

lemmas send_defs = sendMessage_def sendMessage_rest_def

lemmas example_defs =
  fresh_def device0_def io_ok_def io_timeout_def io_refused_def io_engine_down_def
  io_init_fails_def loaded_def

lemmas path_defs = modelDirectory_def localModelPath_def init_params_def MODEL_URL_def

text \<open>The guard \<^verbatim>\<open>!inputMessage.trim()\<close> holds exactly for the empty and the
  whitespace-only strings.\<close>

lemma js_trim_empty: "js_trim s = [] \<longleftrightarrow> list_all js_whitespace s"
proof -
  have "(\<forall>x\<in>set (dropWhile js_whitespace s). js_whitespace x) \<longleftrightarrow>
        dropWhile js_whitespace s = []"
  proof
    assume a: "\<forall>x\<in>set (dropWhile js_whitespace s). js_whitespace x"
    show "dropWhile js_whitespace s = []"
    proof (rule ccontr)
      assume n: "dropWhile js_whitespace s \<noteq> []"
      then have "\<not> js_whitespace (hd (dropWhile js_whitespace s))"
        by (rule hd_dropWhile)
      moreover have "hd (dropWhile js_whitespace s) \<in> set (dropWhile js_whitespace s)"
        using n by simp
      ultimately show False using a by blast
    qed
  next
    assume e: "dropWhile js_whitespace s = []"
    show "\<forall>x\<in>set (dropWhile js_whitespace s). js_whitespace x"
      unfolding e by simp
  qed
  then have "js_trim s = [] \<longleftrightarrow> dropWhile js_whitespace s = []"
    by (simp add: js_trim_def dropWhile_eq_Nil_conv)
  then show ?thesis
    by (simp add: list_all_iff dropWhile_eq_Nil_conv)
qed

lemma or_default_nonempty: "d \<noteq> [] \<Longrightarrow> or_default m d \<noteq> []"
  by (simp add: or_default_def split: option.splits)

lemma timeout_message_timed_out: "js_includes timeout_message ''timed out''"
  by (simp add: timeout_message_def)

lemma not_timed_out_distinct:
  assumes "\<not> timed_out e"
  shows "or_default (message e) ''Failed to load model'' \<noteq> timeout_message"
proof (cases "message e")
  case None
  then show ?thesis by (simp add: or_default_def timeout_message_def)
next
  case (Some m)
  with assms have n: "\<not> js_includes m ''timed out''"
    by (simp add: timed_out_def)
  show ?thesis
  proof (cases "m = []")
    case True
    with Some show ?thesis by (simp add: or_default_def timeout_message_def)
  next
    case False
    with Some have "or_default (message e) ''Failed to load model'' = m"
      by (simp add: or_default_def)
    with n timeout_message_timed_out show ?thesis by auto
  qed
qed

subsection \<open>What loadModel leaves alone\<close>

lemma loadModel_no_completion:
  "Completion h req \<notin> set (trace_of (loadModel env st w))"
  by (simp add: loadModel_defs Let_def
      split: option.splits sum.splits download_outcome.splits)

lemma loadModel_releases: "\<not> isProcessing (state_of (loadModel env st w))"
  by (simp add: loadModel_defs Let_def
      split: option.splits sum.splits download_outcome.splits)

lemma loadModel_messages: "messages (state_of (loadModel env st w)) = messages st"
  by (simp add: loadModel_defs Let_def progress_frame
      split: option.splits sum.splits download_outcome.splits)

lemma loadModel_inputMessage:
  "inputMessage (state_of (loadModel env st w)) = inputMessage st"
  by (simp add: loadModel_defs Let_def progress_frame
      split: option.splits sum.splits download_outcome.splits)

lemma loadModel_error:
  "error (state_of (loadModel env st w)) = error st \<or>
   (\<exists>m. error (state_of (loadModel env st w)) = Some m \<and> m \<noteq> [])"
  by (simp add: loadModel_defs Let_def progress_frame or_default_nonempty
      timeout_message_def split: option.splits sum.splits download_outcome.splits)

text \<open>
  A submit from a render without a handle is a run of \<open>loadModel\<close> and nothing more,
  whatever \<open>loadModel\<close> achieves.
\<close>

lemma sendMessage_no_handle:
  assumes "\<not> list_all js_whitespace (inputMessage s)" and "\<not> isProcessing s"
    and "context' s = None"
  shows "sendMessage v env s w = loadModel env s w"
  using assms by (simp add: sendMessage_def js_trim_empty)

subsection \<open>Downloads and handles\<close>

lemma loadModel_one_download:
  "length (filter is_download (trace_of (loadModel env st w))) \<le> 1"
  by (simp add: loadModel_defs Let_def
      split: option.splits sum.splits download_outcome.splits)

lemma loadModel_file_present:
  "fileExists w \<Longrightarrow> filter is_download (trace_of (loadModel env st w)) = []"
  by (simp add: loadModel_defs Let_def
      split: option.splits sum.splits download_outcome.splits)

lemma loadModel_handle_file:
  assumes "context' st = None" and "context' (state_of (loadModel env st w)) \<noteq> None"
  shows "fileExists (world_of (loadModel env st w))"
  using assms
  by (auto simp: loadModel_defs Let_def progress_frame
      split: option.splits sum.splits download_outcome.splits if_splits)

lemma loadModel_error_or_handle:
  "error (state_of (loadModel env st w)) = error st \<or>
   context' (state_of (loadModel env st w)) = context' st"
  by (simp add: loadModel_defs Let_def progress_frame
      split: option.splits sum.splits download_outcome.splits)

text \<open>A send from a render that holds a handle never runs \<open>loadModel\<close>.\<close>

lemma sendMessage_with_handle:
  assumes "context' s \<noteq> None"
  shows "filter is_provisioning (trace_of (sendMessage v env s w)) = []"
    and "context' (state_of (sendMessage v env s w)) = context' s"
  using assms by (auto simp: send_defs Let_def split: sum.splits)

lemma sendMessage_error:
  "error (state_of (sendMessage v env s w)) = error s \<or>
   (\<exists>m. error (state_of (sendMessage v env s w)) = Some m \<and> m \<noteq> [])"
proof (cases "js_trim (inputMessage s) = [] \<or> isProcessing s")
  case True
  then show ?thesis by (simp add: sendMessage_def)
next
  case False
  show ?thesis
  proof (cases "context' s")
    case None
    with False loadModel_error [of env s w] show ?thesis
      by (simp add: sendMessage_def)
  next
    case (Some h)
    with False show ?thesis
      by (simp add: send_defs Let_def or_default_nonempty split: sum.splits)
  qed
qed

text \<open>After a run that called the download, the file is there when the download
  resolved, and as the failed download left it otherwise.\<close>

lemma loadModel_file_after_download:
  assumes "filter is_download (trace_of (loadModel env st w)) \<noteq> []"
  shows "fileExists (world_of (loadModel env st w)) =
           (case downloadAsync env of Downloaded \<Rightarrow> True | DownloadThrew e left \<Rightarrow> left)"
  using assms
  by (auto simp: loadModel_defs Let_def
      split: option.splits sum.splits download_outcome.splits if_splits)

text \<open>Two runs of \<open>loadModel\<close> in a row call the download at most once, unless the
  first called it and it threw leaving no file.\<close>

lemma loadModel_two_runs:
  assumes "\<not> (filter is_download (trace_of (loadModel env1 st w)) \<noteq> [] \<and>
              (\<exists>e. downloadAsync env1 = DownloadThrew e False))"
  shows "length (filter is_download
           (trace_of (loadModel env1 st w) @
            trace_of (loadModel env2 st2 (world_of (loadModel env1 st w))))) \<le> 1"
proof (cases "filter is_download (trace_of (loadModel env1 st w)) = []")
  case True
  with loadModel_one_download [of env2 st2 "world_of (loadModel env1 st w)"]
  show ?thesis by simp
next
  case False
  with assms have n: "\<forall>e. downloadAsync env1 \<noteq> DownloadThrew e False" by blast
  have "fileExists (world_of (loadModel env1 st w))"
  proof (cases "downloadAsync env1")
    case Downloaded
    with False show ?thesis by (simp add: loadModel_file_after_download)
  next
    case (DownloadThrew e left)
    with n have "left" by (cases left) auto
    with DownloadThrew False show ?thesis by (simp add: loadModel_file_after_download)
  qed
  then have "filter is_download
      (trace_of (loadModel env2 st2 (world_of (loadModel env1 st w)))) = []"
    by (rule loadModel_file_present)
  with loadModel_one_download [of env1 st w] show ?thesis by simp
qed

text \<open>A send either is a run of \<open>loadModel\<close>, or calls no download and leaves the
  device as it was.\<close>

lemma sendMessage_run_cases:
  "(trace_of (sendMessage v env s w) = trace_of (loadModel env s w) \<and>
    world_of (sendMessage v env s w) = world_of (loadModel env s w)) \<or>
   (filter is_download (trace_of (sendMessage v env s w)) = [] \<and>
    world_of (sendMessage v env s w) = w)"
  by (simp add: send_defs Let_def split: option.splits sum.splits)

lemma sendMessage_two_runs:
  assumes "\<not> (filter is_download (trace_of (sendMessage v env1 s w)) \<noteq> [] \<and>
              (\<exists>e. downloadAsync env1 = DownloadThrew e False))"
  shows "length (filter is_download
           (trace_of (sendMessage v env1 s w) @
            trace_of (sendMessage v env2 s2 (world_of (sendMessage v env1 s w))))) \<le> 1"
proof -
  let ?w1 = "world_of (sendMessage v env1 s w)"
  from sendMessage_run_cases [of v env2 s2 ?w1]
  have second: "filter is_download (trace_of (sendMessage v env2 s2 ?w1)) = [] \<or>
      trace_of (sendMessage v env2 s2 ?w1) = trace_of (loadModel env2 s2 ?w1)"
    by blast
  from sendMessage_run_cases [of v env1 s w] show ?thesis
  proof
    assume a: "trace_of (sendMessage v env1 s w) = trace_of (loadModel env1 s w) \<and>
               world_of (sendMessage v env1 s w) = world_of (loadModel env1 s w)"
    from second show ?thesis
    proof
      assume "filter is_download (trace_of (sendMessage v env2 s2 ?w1)) = []"
      with a loadModel_one_download [of env1 s w] show ?thesis by simp
    next
      assume b: "trace_of (sendMessage v env2 s2 ?w1) = trace_of (loadModel env2 s2 ?w1)"
      from assms a have "\<not> (filter is_download (trace_of (loadModel env1 s w)) \<noteq> [] \<and>
              (\<exists>e. downloadAsync env1 = DownloadThrew e False))"
        by simp
      from loadModel_two_runs [OF this, of env2 s2] a b show ?thesis by simp
    qed
  next
    assume a: "filter is_download (trace_of (sendMessage v env1 s w)) = [] \<and>
               world_of (sendMessage v env1 s w) = w"
    from second show ?thesis
    proof
      assume "filter is_download (trace_of (sendMessage v env2 s2 ?w1)) = []"
      with a show ?thesis by simp
    next
      assume b: "trace_of (sendMessage v env2 s2 ?w1) = trace_of (loadModel env2 s2 ?w1)"
      with a loadModel_one_download [of env2 s2 ?w1] show ?thesis by simp
    qed
  qed
qed

section \<open>The first submit\<close>

text \<open>
  C1. A submit with non-empty input, not busy and without a handle awaits \<open>loadModel\<close>;
  the claim is that, when \<open>loadModel\<close> produces a handle, the same call goes on to
  issue one completion request. The code tests \<^verbatim>\<open>!context\<close> again after the
  \<^verbatim>\<open>await\<close>, on the binding of the render that created the handler, which is still
  \<^verbatim>\<open>null\<close>, and returns. On a fresh component with \<open>hello\<close> typed and every
  external call resolving, the run ends with the handle stored and the model
  initialised, but with no completion call, an unchanged transcript and the text still
  in the input field.
\<close>

theorem first_submit_stops_after_loadModel:
  "context' (state_of (sendMessage AppIndex io_ok fresh device0)) = Some (LlamaContext 1) \<and>
   error (state_of (sendMessage AppIndex io_ok fresh device0)) = None \<and>
   messages (state_of (sendMessage AppIndex io_ok fresh device0)) = [] \<and>
   inputMessage (state_of (sendMessage AppIndex io_ok fresh device0)) = ''hello'' \<and>
   trace_of (sendMessage AppIndex io_ok fresh device0) =
     [GetInfoAsync ''file:///data/models/'' False,
      MakeDirectoryAsync ''file:///data/models/'' True,
      GetInfoAsync ''file:///data/models/gemma-2-2b-it-Q8_0-011.gguf'' False,
      DownloadAsync
        ''https://pub-741c015d579d42f8acfe54bd0788c5ef.r2.dev/gemma-2-2b-it-Q8_0.gguf''
        ''file:///data/models/gemma-2-2b-it-Q8_0-011.gguf'',
      GetInfoAsync ''file:///data/models/gemma-2-2b-it-Q8_0-011.gguf'' True,
      LoadLlamaModelInfo ''file:///data/models/gemma-2-2b-it-Q8_0-011.gguf'',
      InitLlama \<lparr>model = ''file:///data/models/gemma-2-2b-it-Q8_0-011.gguf'',
        use_mlock = True, n_ctx = 2048, n_gpu_layers = 0, use_progress_callback = True\<rparr>]"
proof -
  have "sendMessage AppIndex io_ok fresh device0 = loadModel io_ok fresh device0"
    by (rule sendMessage_no_handle) (simp_all add: fresh_def js_whitespace_def)
  then show ?thesis
    by (simp add: loadModel_defs Let_def example_defs path_defs)
qed

section \<open>The guard of sendMessage\<close>

text \<open>
  C2. When the component is busy, or when the input is empty or consists of whitespace
  only, \<open>sendMessage\<close> is a no-op: the whole state (transcript, busy flag, error and the
  rest) and the device are unchanged and no external call is made.
\<close>

theorem sendMessage_guard_noop:
  "isProcessing s \<or> list_all js_whitespace (inputMessage s) \<Longrightarrow>
   sendMessage v env s w = (s, w, [])"
  by (auto simp: sendMessage_def js_trim_empty)

theorem sendMessage_guard_noop_witness:
  "sendMessage AppIndex io_ok (fresh\<lparr>isProcessing := True\<rparr>) device0 =
     (fresh\<lparr>isProcessing := True\<rparr>, device0, []) \<and>
   sendMessage Part000 io_ok (fresh\<lparr>inputMessage := []\<rparr>) device0 =
     (fresh\<lparr>inputMessage := []\<rparr>, device0, []) \<and>
   sendMessage AppIndex io_ok (fresh\<lparr>inputMessage := ''   ''\<rparr>) device0 =
     (fresh\<lparr>inputMessage := ''   ''\<rparr>, device0, [])"
proof -
  have a: "isProcessing (fresh\<lparr>isProcessing := True\<rparr>) \<or>
           list_all js_whitespace (inputMessage (fresh\<lparr>isProcessing := True\<rparr>))"
    by simp
  have b: "isProcessing (fresh\<lparr>inputMessage := []\<rparr>) \<or>
           list_all js_whitespace (inputMessage (fresh\<lparr>inputMessage := []\<rparr>))"
    by simp
  have c: "isProcessing (fresh\<lparr>inputMessage := ''   ''\<rparr>) \<or>
           list_all js_whitespace (inputMessage (fresh\<lparr>inputMessage := ''   ''\<rparr>))"
    by (simp add: js_whitespace_def)
  from sendMessage_guard_noop [OF a] sendMessage_guard_noop [OF b]
    sendMessage_guard_noop [OF c]
  show ?thesis by (intro conjI)
qed

section \<open>A round with the handle present\<close>

text \<open>
  C3. A send with non-empty input, not busy, with a handle, whose completion call
  resolves with \<open>text\<close>, leaves the transcript it started from followed by exactly two
  entries: the user turn with the input as typed, then the assistant turn with \<open>text\<close>.
\<close>

theorem sendMessage_appends_user_then_assistant:
  assumes "\<not> list_all js_whitespace (inputMessage s)" and "\<not> isProcessing s"
    and "context' s = Some h"
    and "completion env h
           (completion_request v (messages s @ [\<lparr>role = User, content = inputMessage s\<rparr>]))
         = Inr text"
  shows "messages (state_of (sendMessage v env s w)) =
           messages s @ [\<lparr>role = User, content = inputMessage s\<rparr>,
                         \<lparr>role = Assistant, content = text\<rparr>]"
  using assms by (simp add: send_defs js_trim_empty Let_def)

theorem sendMessage_appends_user_then_assistant_witness:
  "messages (state_of (sendMessage AppIndex io_ok loaded device0)) =
     [\<lparr>role = User, content = ''hi''\<rparr>, \<lparr>role = Assistant, content = ''Hello.''\<rparr>,
      \<lparr>role = User, content = ''I'm so stressed''\<rparr>,
      \<lparr>role = Assistant, content = ''I hear you.''\<rparr>]"
proof -
  have a: "\<not> list_all js_whitespace (inputMessage loaded)"
    by (simp add: loaded_def js_whitespace_def)
  have b: "\<not> isProcessing loaded" by (simp add: loaded_def)
  have c: "context' loaded = Some (LlamaContext 1)" by (simp add: loaded_def)
  have d: "completion io_ok (LlamaContext 1)
             (completion_request AppIndex
               (messages loaded @ [\<lparr>role = User, content = inputMessage loaded\<rparr>]))
           = Inr ''I hear you.''"
    by (simp add: io_ok_def)
  from sendMessage_appends_user_then_assistant [OF a b c d, of device0]
  show ?thesis by (simp add: loaded_def)
qed

text \<open>
  C4. A send with non-empty input, not busy, with a handle, whose completion call throws
  \<open>e\<close>, leaves the transcript it started from followed by the user turn alone; the
  error becomes \<^verbatim>\<open>e.message || "Failed to send message"\<close>, which is never empty; and
  the busy flag is false afterwards. The busy flag is false after every send that
  starts not busy, whatever the external calls answer (\<open>env2\<close>, \<open>w2\<close>).
\<close>

theorem sendMessage_completion_failure:
  assumes "\<not> list_all js_whitespace (inputMessage s)" and "\<not> isProcessing s"
    and "context' s = Some h"
    and "completion env h
           (completion_request v (messages s @ [\<lparr>role = User, content = inputMessage s\<rparr>]))
         = Inl e"
  shows "messages (state_of (sendMessage v env s w)) =
           messages s @ [\<lparr>role = User, content = inputMessage s\<rparr>] \<and>
         error (state_of (sendMessage v env s w)) =
           Some (or_default (message e) ''Failed to send message'') \<and>
         or_default (message e) ''Failed to send message'' \<noteq> [] \<and>
         \<not> isProcessing (state_of (sendMessage v env s w)) \<and>
         \<not> isProcessing (state_of (sendMessage v env2 s w2))"
  using assms
  by (simp add: send_defs js_trim_empty Let_def or_default_nonempty loadModel_releases
      split: option.splits sum.splits)

theorem sendMessage_completion_failure_witness:
  "messages (state_of (sendMessage Part000 io_engine_down loaded device0)) =
     [\<lparr>role = User, content = ''hi''\<rparr>, \<lparr>role = Assistant, content = ''Hello.''\<rparr>,
      \<lparr>role = User, content = ''I'm so stressed''\<rparr>] \<and>
   error (state_of (sendMessage Part000 io_engine_down loaded device0)) =
     Some ''Context is busy'' \<and>
   \<not> isProcessing (state_of (sendMessage Part000 io_engine_down loaded device0)) \<and>
   \<not> isProcessing (state_of (sendMessage Part000 io_timeout loaded device0))"
proof -
  have a: "\<not> list_all js_whitespace (inputMessage loaded)"
    by (simp add: loaded_def js_whitespace_def)
  have b: "\<not> isProcessing loaded" by (simp add: loaded_def)
  have c: "context' loaded = Some (LlamaContext 1)" by (simp add: loaded_def)
  have d: "completion io_engine_down (LlamaContext 1)
             (completion_request Part000
               (messages loaded @ [\<lparr>role = User, content = inputMessage loaded\<rparr>]))
           = Inl (JsError (Some ''Context is busy''))"
    by (simp add: io_engine_down_def io_ok_def)
  from sendMessage_completion_failure [OF a b c d, of device0 io_timeout device0]
  show ?thesis by (simp add: loaded_def or_default_def)
qed

section \<open>The completion request\<close>

text \<open>
  C5. Every completion request a send issues carries, as its messages, the system turn
  with the version's fixed prompt, then the transcript the send started from, then the
  user turn just appended; \<open>n_predict\<close> is 512 in \<^verbatim>\<open>index.tsx\<close> and 100 in
  \<^verbatim>\<open>part_000\<close>; \<open>stop\<close> is the fixed list of eleven terminators. The request goes to
  the handle of the render, and it is the only completion request of that send.
\<close>

theorem sendMessage_request:
  assumes "Completion h req \<in> set (trace_of (sendMessage v env s w))"
  shows "req_messages req =
           \<lparr>role = System, content = system_prompt v\<rparr> #
           messages s @ [\<lparr>role = User, content = inputMessage s\<rparr>] \<and>
         n_predict req = (case v of AppIndex \<Rightarrow> 512 | Part000 \<Rightarrow> 100) \<and>
         stop req =
           [''</s>'', ''<|end|>'', ''<|eot_id|>'', ''<|end_of_text|>'', ''<|im_end|>'',
            ''<|EOT|>'', ''<|END_OF_TURN_TOKEN|>'', ''<end_of_turn>'',
            ''<end_of_turn><eos>'', ''<|endoftext|>'', ''<|end_of_text|>''] \<and>
         context' s = Some h \<and>
         length (filter (\<lambda>ev. \<not> is_provisioning ev) (trace_of (sendMessage v env s w))) = 1"
  using assms
  by (auto simp: send_defs Let_def loadModel_no_completion completion_request_def
      max_tokens_def stop_sequences_def split: option.splits if_splits)

theorem sendMessage_request_witness:
  "Completion (LlamaContext 1)
     (completion_request Part000
        (messages loaded @ [\<lparr>role = User, content = inputMessage loaded\<rparr>]))
     \<in> set (trace_of (sendMessage Part000 io_ok loaded device0)) \<and>
   req_messages
     (completion_request Part000
        (messages loaded @ [\<lparr>role = User, content = inputMessage loaded\<rparr>])) =
     [\<lparr>role = System, content = system_prompt Part000\<rparr>,
      \<lparr>role = User, content = ''hi''\<rparr>, \<lparr>role = Assistant, content = ''Hello.''\<rparr>,
      \<lparr>role = User, content = ''I'm so stressed''\<rparr>] \<and>
   n_predict
     (completion_request Part000
        (messages loaded @ [\<lparr>role = User, content = inputMessage loaded\<rparr>])) = 100"
proof -
  have a: "Completion (LlamaContext 1)
     (completion_request Part000
        (messages loaded @ [\<lparr>role = User, content = inputMessage loaded\<rparr>]))
     \<in> set (trace_of (sendMessage Part000 io_ok loaded device0))"
    by (simp add: send_defs Let_def loaded_def js_trim_def js_whitespace_def)
  from a sendMessage_request [OF a] show ?thesis by (simp add: loaded_def)
qed

section \<open>Provisioning\<close>

text \<open>
  C6. A run of \<open>loadModel\<close> that reaches the model file (the directory check and, when
  needed, the directory creation resolve; the file check resolves; the file is there,
  or the download and the file check after it resolve) makes exactly these calls, in
  this order: the directory and file calls, then \<^verbatim>\<open>loadLlamaModelInfo\<close> on the local
  path, and, when that resolves, \<^verbatim>\<open>initLlama\<close> with the model path, \<open>use_mlock\<close> true,
  \<open>n_ctx\<close> 2048, \<open>n_gpu_layers\<close> 0 and \<open>use_progress_callback\<close> true.
\<close>

theorem loadModel_reads_info_then_inits:
  assumes "getInfoDir env = None" and "dirExists w \<or> makeDirectory env = None"
    and "getInfoFile env = None"
    and "fileExists w \<or> (downloadAsync env = Downloaded \<and> getInfoMd5 env = None)"
  shows "trace_of (loadModel env st w) =
     GetInfoAsync (documentDirectory w @ ''models/'') False #
     (if dirExists w then []
      else [MakeDirectoryAsync (documentDirectory w @ ''models/'') True]) @
     GetInfoAsync (documentDirectory w @ ''models/gemma-2-2b-it-Q8_0-011.gguf'') False #
     (if fileExists w then []
      else [DownloadAsync MODEL_URL
              (documentDirectory w @ ''models/gemma-2-2b-it-Q8_0-011.gguf''),
            GetInfoAsync (documentDirectory w @ ''models/gemma-2-2b-it-Q8_0-011.gguf'')
              True]) @
     LoadLlamaModelInfo (documentDirectory w @ ''models/gemma-2-2b-it-Q8_0-011.gguf'') #
     (case loadLlamaModelInfo env of
        Some e \<Rightarrow> []
      | None \<Rightarrow>
          [InitLlama
             \<lparr>model = documentDirectory w @ ''models/gemma-2-2b-it-Q8_0-011.gguf'',
              use_mlock = True, n_ctx = 2048, n_gpu_layers = 0,
              use_progress_callback = True\<rparr>])"
  using assms
  by (auto simp: loadModel_defs Let_def path_defs
      split: option.splits sum.splits download_outcome.splits)

theorem loadModel_reads_info_then_inits_witness:
  "trace_of (loadModel io_ok loaded (device0\<lparr>dirExists := True, fileExists := True\<rparr>)) =
     [GetInfoAsync ''file:///data/models/'' False,
      GetInfoAsync ''file:///data/models/gemma-2-2b-it-Q8_0-011.gguf'' False,
      LoadLlamaModelInfo ''file:///data/models/gemma-2-2b-it-Q8_0-011.gguf'',
      InitLlama \<lparr>model = ''file:///data/models/gemma-2-2b-it-Q8_0-011.gguf'',
        use_mlock = True, n_ctx = 2048, n_gpu_layers = 0, use_progress_callback = True\<rparr>]"
proof -
  let ?w = "device0\<lparr>dirExists := True, fileExists := True\<rparr>"
  have a: "getInfoDir io_ok = None" by (simp add: io_ok_def)
  have b: "dirExists ?w \<or> makeDirectory io_ok = None" by simp
  have c: "getInfoFile io_ok = None" by (simp add: io_ok_def)
  have d: "fileExists ?w \<or> (downloadAsync io_ok = Downloaded \<and> getInfoMd5 io_ok = None)"
    by simp
  from loadModel_reads_info_then_inits [OF a b c d, of loaded]
  show ?thesis by (simp add: io_ok_def device0_def)
qed

text \<open>
  C7. When a run of \<open>loadModel\<close> starts the download and the download throws \<open>e\<close>: if
  \<open>e\<close> has a message that includes \<open>timed out\<close>, the error becomes the fixed time-out
  text; otherwise it becomes \<^verbatim>\<open>e.message || "Failed to load model"\<close>, which is not
  empty and differs from the time-out text. In both cases the run holds exactly one
  download call, no \<^verbatim>\<open>loadLlamaModelInfo\<close> and no \<^verbatim>\<open>initLlama\<close> call, leaves the
  handle as it was, and ends not busy.
\<close>

theorem loadModel_download_failure:
  assumes "DownloadAsync url p \<in> set (trace_of (loadModel env st w))"
    and "downloadAsync env = DownloadThrew e left"
  shows "error (state_of (loadModel env st w)) =
           Some (if timed_out e
                 then ''Download timed out. Please check your internet connection and try again.''
                 else or_default (message e) ''Failed to load model'') \<and>
         (if timed_out e then True
          else or_default (message e) ''Failed to load model'' \<noteq> [] \<and>
               or_default (message e) ''Failed to load model'' \<noteq>
                 ''Download timed out. Please check your internet connection and try again.'') \<and>
         length (filter is_download (trace_of (loadModel env st w))) = 1 \<and>
         LoadLlamaModelInfo q \<notin> set (trace_of (loadModel env st w)) \<and>
         InitLlama ps \<notin> set (trace_of (loadModel env st w)) \<and>
         context' (state_of (loadModel env st w)) = context' st \<and>
         \<not> isProcessing (state_of (loadModel env st w))"
proof -
  have d: "\<not> timed_out e \<Longrightarrow>
      or_default (message e) ''Failed to load model'' \<noteq> [] \<and>
      or_default (message e) ''Failed to load model'' \<noteq>
        ''Download timed out. Please check your internet connection and try again.''"
    using not_timed_out_distinct [of e] or_default_nonempty [of "''Failed to load model''" "message e"]
    by (simp add: timeout_message_def)
  have r: "error (state_of (loadModel env st w)) =
           Some (if timed_out e
                 then ''Download timed out. Please check your internet connection and try again.''
                 else or_default (message e) ''Failed to load model'') \<and>
         length (filter is_download (trace_of (loadModel env st w))) = 1 \<and>
         LoadLlamaModelInfo q \<notin> set (trace_of (loadModel env st w)) \<and>
         InitLlama ps \<notin> set (trace_of (loadModel env st w)) \<and>
         context' (state_of (loadModel env st w)) = context' st"
    using assms
    by (auto simp: loadModel_defs Let_def progress_frame timeout_message_def
        split: option.splits sum.splits download_outcome.splits if_splits)
  from d r loadModel_releases [of env st w] show ?thesis by simp
qed

theorem loadModel_download_failure_witness:
  "error (state_of (loadModel io_timeout fresh device0)) =
     Some ''Download timed out. Please check your internet connection and try again.'' \<and>
   length (filter is_download (trace_of (loadModel io_timeout fresh device0))) = 1 \<and>
   context' (state_of (loadModel io_timeout fresh device0)) = None \<and>
   error (state_of (loadModel io_refused fresh device0)) = Some ''Connection refused'' \<and>
   length (filter is_download (trace_of (loadModel io_refused fresh device0))) = 1 \<and>
   context' (state_of (loadModel io_refused fresh device0)) = None"
proof -
  let ?p = "''file:///data/models/gemma-2-2b-it-Q8_0-011.gguf''"
  have a: "DownloadAsync MODEL_URL ?p \<in> set (trace_of (loadModel io_timeout fresh device0))"
    by (simp add: loadModel_defs Let_def example_defs path_defs timed_out_def)
  have b: "downloadAsync io_timeout =
             DownloadThrew (JsError (Some ''The request timed out.'')) False"
    by (simp add: io_timeout_def io_ok_def)
  have c: "DownloadAsync MODEL_URL ?p \<in> set (trace_of (loadModel io_refused fresh device0))"
    by (simp add: loadModel_defs Let_def example_defs path_defs timed_out_def)
  have d: "downloadAsync io_refused =
             DownloadThrew (JsError (Some ''Connection refused'')) True"
    by (simp add: io_refused_def io_ok_def)
  have t: "timed_out (JsError (Some ''The request timed out.''))"
    by (simp add: timed_out_def)
  have n: "\<not> timed_out (JsError (Some ''Connection refused''))"
    by (simp add: timed_out_def)
  from loadModel_download_failure [OF a b] loadModel_download_failure [OF c d] t n
  show ?thesis by (simp add: fresh_def or_default_def)
qed

section \<open>clearChat and the handle\<close>

text \<open>
  C8, as stated, fails on \<^verbatim>\<open>part_000\<close>: its \<open>clearChat\<close> leaves the pending input.
\<close>

theorem clearChat_part000_keeps_input:
  "inputMessage (clearChat Part000 loaded) \<noteq> []"
  by (simp add: clearChat_def loaded_def)

text \<open>
  C8, amended. In both versions \<open>clearChat\<close> empties the transcript and leaves the
  handle, the error, the busy flag and the download progress as they were; it empties
  the pending input in \<^verbatim>\<open>index.tsx\<close> and leaves it as it was in \<^verbatim>\<open>part_000\<close>.
  When a handle is present, a send that follows (with any text typed meanwhile) makes
  no provisioning call.
\<close>

theorem clearChat_resets_transcript:
  "messages (clearChat v s) = [] \<and>
   inputMessage (clearChat v s) = (case v of AppIndex \<Rightarrow> [] | Part000 \<Rightarrow> inputMessage s) \<and>
   context' (clearChat v s) = context' s \<and>
   error (clearChat v s) = error s \<and>
   isProcessing (clearChat v s) = isProcessing s \<and>
   downloadProgress (clearChat v s) = downloadProgress s \<and>
   (context' s \<noteq> None \<longrightarrow>
      filter is_provisioning
        (trace_of (sendMessage v env ((clearChat v s)\<lparr>inputMessage := txt\<rparr>) w)) = [])"
proof -
  have "context' ((clearChat v s)\<lparr>inputMessage := txt\<rparr>) = context' s"
    by (simp add: clearChat_def split: variant.splits)
  then have "context' s \<noteq> None \<longrightarrow>
      filter is_provisioning
        (trace_of (sendMessage v env ((clearChat v s)\<lparr>inputMessage := txt\<rparr>) w)) = []"
    using sendMessage_with_handle(1) [of "(clearChat v s)\<lparr>inputMessage := txt\<rparr>" v env w]
    by simp
  then show ?thesis
    by (simp add: clearChat_def split: variant.splits)
qed

theorem clearChat_resets_transcript_witness:
  "messages (clearChat AppIndex loaded) = [] \<and>
   inputMessage (clearChat AppIndex loaded) = [] \<and>
   inputMessage (clearChat Part000 loaded) = ''I'm so stressed'' \<and>
   context' (clearChat AppIndex loaded) = Some (LlamaContext 1) \<and>
   filter is_provisioning
     (trace_of (sendMessage AppIndex io_ok
        ((clearChat AppIndex loaded)\<lparr>inputMessage := ''again''\<rparr>) device0)) = []"
proof -
  have a: "context' loaded \<noteq> None" by (simp add: loaded_def)
  from a clearChat_resets_transcript [of AppIndex loaded io_ok "''again''" device0]
    clearChat_resets_transcript [of Part000 loaded io_ok "''again''" device0]
  show ?thesis by (simp add: loaded_def)
qed

section \<open>Provisioning twice\<close>

text \<open>
  C9, as stated, fails. The first submit runs \<open>loadModel\<close>, its download times out and
  leaves no file; the submit that follows, from the state the first one left, runs
  \<open>loadModel\<close> again and downloads again: two network transfers.
\<close>

theorem second_submit_downloads_again:
  "length (filter is_download
     (trace_of (sendMessage AppIndex io_timeout fresh device0) @
      trace_of (sendMessage AppIndex io_ok
                  (state_of (sendMessage AppIndex io_timeout fresh device0))
                  (world_of (sendMessage AppIndex io_timeout fresh device0))))) = 2"
proof -
  have a: "sendMessage AppIndex io_timeout fresh device0 = loadModel io_timeout fresh device0"
    by (rule sendMessage_no_handle) (simp_all add: fresh_def js_whitespace_def)
  have b: "sendMessage AppIndex io_ok (state_of (loadModel io_timeout fresh device0))
             (world_of (loadModel io_timeout fresh device0)) =
           loadModel io_ok (state_of (loadModel io_timeout fresh device0))
             (world_of (loadModel io_timeout fresh device0))"
    by (rule sendMessage_no_handle)
      (simp_all add: loadModel_inputMessage loadModel_releases fresh_def js_whitespace_def
        loadModel_defs Let_def example_defs timed_out_def)
  show ?thesis
    unfolding a b
    by (simp add: loadModel_defs Let_def example_defs path_defs timed_out_def)
qed

text \<open>
  C9, amended. Invoking the provisioner twice in a row, as two runs of \<open>loadModel\<close> or
  as two submits, makes at most one network transfer, unless the first invocation
  called the download and the download threw leaving no file at the local path (then
  the second may download again; never more than two transfers in all). An invocation
  that finds the file present skips the download; the file is present after every
  first invocation that produced a handle. When the first invocation produced a
  handle, a submit from a render that holds it returns at the guard
  \<^verbatim>\<open>if (!context)\<close> without any provisioning call and leaves the handle as it is.
\<close>

theorem provisioning_reuse:
  "(\<not> (filter is_download (trace_of (loadModel env1 st w)) \<noteq> [] \<and>
        (\<exists>e. downloadAsync env1 = DownloadThrew e False)) \<longrightarrow>
      length (filter is_download
        (trace_of (loadModel env1 st w) @
         trace_of (loadModel env2 st2 (world_of (loadModel env1 st w))))) \<le> 1) \<and>
   (\<not> (filter is_download (trace_of (sendMessage v env1 s w)) \<noteq> [] \<and>
        (\<exists>e. downloadAsync env1 = DownloadThrew e False)) \<longrightarrow>
      length (filter is_download
        (trace_of (sendMessage v env1 s w) @
         trace_of (sendMessage v env2 s2 (world_of (sendMessage v env1 s w))))) \<le> 1) \<and>
   length (filter is_download
     (trace_of (loadModel env1 st w) @
      trace_of (loadModel env2 st2 (world_of (loadModel env1 st w))))) \<le> 2 \<and>
   (fileExists w \<longrightarrow> filter is_download (trace_of (loadModel env1 st w)) = []) \<and>
   (context' st = None \<and> context' (state_of (loadModel env1 st w)) \<noteq> None \<longrightarrow>
      fileExists (world_of (loadModel env1 st w))) \<and>
   (context' (state_of (loadModel env1 st w)) \<noteq> None \<and>
    context' s2 = context' (state_of (loadModel env1 st w)) \<longrightarrow>
      filter is_provisioning (trace_of (sendMessage v env2 s2 w2)) = [] \<and>
      context' (state_of (sendMessage v env2 s2 w2)) = context' s2)"
proof -
  have p1: "\<not> (filter is_download (trace_of (loadModel env1 st w)) \<noteq> [] \<and>
        (\<exists>e. downloadAsync env1 = DownloadThrew e False)) \<longrightarrow>
      length (filter is_download
        (trace_of (loadModel env1 st w) @
         trace_of (loadModel env2 st2 (world_of (loadModel env1 st w))))) \<le> 1"
    using loadModel_two_runs [of env1 st w env2 st2] by blast
  have p2: "\<not> (filter is_download (trace_of (sendMessage v env1 s w)) \<noteq> [] \<and>
        (\<exists>e. downloadAsync env1 = DownloadThrew e False)) \<longrightarrow>
      length (filter is_download
        (trace_of (sendMessage v env1 s w) @
         trace_of (sendMessage v env2 s2 (world_of (sendMessage v env1 s w))))) \<le> 1"
    using sendMessage_two_runs [of v env1 s w env2 s2] by blast
  have p3: "length (filter is_download
     (trace_of (loadModel env1 st w) @
      trace_of (loadModel env2 st2 (world_of (loadModel env1 st w))))) \<le> 2"
    using loadModel_one_download [of env1 st w]
      loadModel_one_download [of env2 st2 "world_of (loadModel env1 st w)"]
    by simp
  have p4: "fileExists w \<longrightarrow> filter is_download (trace_of (loadModel env1 st w)) = []"
    by (simp add: loadModel_file_present)
  have p5: "context' st = None \<and> context' (state_of (loadModel env1 st w)) \<noteq> None \<longrightarrow>
      fileExists (world_of (loadModel env1 st w))"
    by (simp add: loadModel_handle_file)
  have p6: "context' (state_of (loadModel env1 st w)) \<noteq> None \<and>
    context' s2 = context' (state_of (loadModel env1 st w)) \<longrightarrow>
      filter is_provisioning (trace_of (sendMessage v env2 s2 w2)) = [] \<and>
      context' (state_of (sendMessage v env2 s2 w2)) = context' s2"
    using sendMessage_with_handle [of s2 v env2 w2] by simp
  from p1 p2 p3 p4 p5 p6 show ?thesis by (intro conjI)
qed

theorem provisioning_reuse_witness:
  "context' (state_of (loadModel io_init_fails fresh device0)) = None \<and>
   length (filter is_download
     (trace_of (loadModel io_init_fails fresh device0) @
      trace_of (loadModel io_ok (state_of (loadModel io_init_fails fresh device0))
                  (world_of (loadModel io_init_fails fresh device0))))) \<le> 1 \<and>
   length (filter is_download
     (trace_of (sendMessage AppIndex io_init_fails fresh device0) @
      trace_of (sendMessage AppIndex io_ok
                  (state_of (loadModel io_init_fails fresh device0))
                  (world_of (sendMessage AppIndex io_init_fails fresh device0))))) \<le> 1 \<and>
   filter is_provisioning (trace_of (sendMessage AppIndex io_ok loaded device0)) = [] \<and>
   context' (state_of (sendMessage AppIndex io_ok loaded device0)) = Some (LlamaContext 1)"
proof -
  have d: "downloadAsync io_init_fails = Downloaded"
    by (simp add: io_init_fails_def io_ok_def)
  have a: "\<not> (filter is_download (trace_of (loadModel io_init_fails fresh device0)) \<noteq> [] \<and>
        (\<exists>e. downloadAsync io_init_fails = DownloadThrew e False))"
    by (simp add: d)
  have b: "\<not> (filter is_download
                (trace_of (sendMessage AppIndex io_init_fails fresh device0)) \<noteq> [] \<and>
        (\<exists>e. downloadAsync io_init_fails = DownloadThrew e False))"
    by (simp add: d)
  have n: "context' (state_of (loadModel io_init_fails fresh device0)) = None"
    by (simp add: loadModel_defs Let_def io_init_fails_def example_defs path_defs)
  have h: "context' (state_of (loadModel io_ok fresh device0)) \<noteq> None \<and>
           context' loaded = context' (state_of (loadModel io_ok fresh device0))"
    by (simp add: loadModel_defs Let_def example_defs path_defs)
  have c: "context' loaded = Some (LlamaContext 1)" by (simp add: loaded_def)
  from a b n c
    provisioning_reuse [where ?env1.0 = io_init_fails and st = fresh and w = device0
      and ?env2.0 = io_ok and ?st2.0 = "state_of (loadModel io_init_fails fresh device0)"
      and v = AppIndex and s = fresh
      and ?s2.0 = "state_of (loadModel io_init_fails fresh device0)"]
  have first: "length (filter is_download
     (trace_of (loadModel io_init_fails fresh device0) @
      trace_of (loadModel io_ok (state_of (loadModel io_init_fails fresh device0))
                  (world_of (loadModel io_init_fails fresh device0))))) \<le> 1 \<and>
   length (filter is_download
     (trace_of (sendMessage AppIndex io_init_fails fresh device0) @
      trace_of (sendMessage AppIndex io_ok
                  (state_of (loadModel io_init_fails fresh device0))
                  (world_of (sendMessage AppIndex io_init_fails fresh device0))))) \<le> 1"
    by blast
  from h c
    provisioning_reuse [where ?env1.0 = io_ok and st = fresh and w = device0
      and ?env2.0 = io_ok and ?s2.0 = loaded and v = AppIndex and ?w2.0 = device0]
  have second: "filter is_provisioning (trace_of (sendMessage AppIndex io_ok loaded device0)) = [] \<and>
   context' (state_of (sendMessage AppIndex io_ok loaded device0)) = Some (LlamaContext 1)"
    by simp
  from n first second show ?thesis by (intro conjI) simp_all
qed

section \<open>The error message\<close>

text \<open>
  C10. Once the error holds a non-empty message \<open>m\<close>, \<open>clearChat\<close> leaves it, a send
  whose completion call resolves leaves it, and after any send the error is still a
  non-empty message: it is \<open>m\<close> unless the completion call threw or the send ran
  \<open>loadModel\<close> and ended without a handle.
\<close>

theorem error_persists:
  assumes "error s = Some m" and "m \<noteq> []"
  shows "error (clearChat v s) = Some m \<and>
     (context' s = Some h \<and>
      completion env h
        (completion_request v (messages s @ [\<lparr>role = User, content = inputMessage s\<rparr>]))
        = Inr text \<longrightarrow>
      error (state_of (sendMessage v env s w)) = Some m) \<and>
     (\<exists>m'. error (state_of (sendMessage v env s w)) = Some m' \<and> m' \<noteq> []) \<and>
     (error (state_of (sendMessage v env s w)) = Some m \<or>
      (\<exists>h' e. context' s = Some h' \<and>
         completion env h'
           (completion_request v (messages s @ [\<lparr>role = User, content = inputMessage s\<rparr>]))
           = Inl e) \<or>
      (context' s = None \<and> context' (state_of (sendMessage v env s w)) = None))"
proof -
  have c1: "error (clearChat v s) = Some m"
    using assms by (simp add: clearChat_def split: variant.splits)
  have c2: "context' s = Some h \<and>
      completion env h
        (completion_request v (messages s @ [\<lparr>role = User, content = inputMessage s\<rparr>]))
        = Inr text \<longrightarrow>
      error (state_of (sendMessage v env s w)) = Some m"
    using assms by (simp add: send_defs Let_def)
  have c3: "\<exists>m'. error (state_of (sendMessage v env s w)) = Some m' \<and> m' \<noteq> []"
    using assms sendMessage_error [of v env s w] by auto
  have c4: "error (state_of (sendMessage v env s w)) = Some m \<or>
      (\<exists>h' e. context' s = Some h' \<and>
         completion env h'
           (completion_request v (messages s @ [\<lparr>role = User, content = inputMessage s\<rparr>]))
           = Inl e) \<or>
      (context' s = None \<and> context' (state_of (sendMessage v env s w)) = None)"
  proof (cases "js_trim (inputMessage s) = [] \<or> isProcessing s")
    case True
    with assms show ?thesis by (simp add: sendMessage_def)
  next
    case False
    show ?thesis
    proof (cases "context' s")
      case None
      with False assms loadModel_error_or_handle [of env s w] show ?thesis
        by (auto simp: sendMessage_def)
    next
      case (Some h')
      with False assms show ?thesis
        by (simp add: send_defs Let_def split: sum.splits)
    qed
  qed
  from c1 c2 c3 c4 show ?thesis by (intro conjI)
qed

theorem error_persists_witness:
  "error (clearChat AppIndex (loaded\<lparr>error := Some ''Context is busy''\<rparr>)) =
     Some ''Context is busy'' \<and>
   error (clearChat Part000 (loaded\<lparr>error := Some ''Context is busy''\<rparr>)) =
     Some ''Context is busy'' \<and>
   error (state_of (sendMessage AppIndex io_ok (loaded\<lparr>error := Some ''Context is busy''\<rparr>)
     device0)) = Some ''Context is busy''"
proof -
  let ?s = "loaded\<lparr>error := Some ''Context is busy''\<rparr>"
  have a: "error ?s = Some ''Context is busy''" by simp
  have b: "''Context is busy'' \<noteq> []" by simp
  have c: "context' ?s = Some (LlamaContext 1)" by (simp add: loaded_def)
  have d: "completion io_ok (LlamaContext 1)
        (completion_request AppIndex
           (messages ?s @ [\<lparr>role = User, content = inputMessage ?s\<rparr>]))
        = Inr ''I hear you.''"
    by (simp add: io_ok_def)
  from c d error_persists [OF a b, of AppIndex "LlamaContext 1" io_ok "''I hear you.''" device0]
    error_persists [OF a b, of Part000 "LlamaContext 1" io_ok "''I hear you.''" device0]
  show ?thesis by simp
qed

end
